theory Spec2Isabelle
  imports Main "HOL-Library.Sublist"
begin

section \<open>The \<open>twilio_view\<close> decorator of \<open>dj_twilio_sms/decorators.py\<close>\<close>

text \<open>
  The module holds one function, the decorator \<open>twilio_view\<close>. The model follows its body
  line by line. What the decorator takes from Django and from the Twilio helper library is
  made explicit:
  \<^item> the request is a record of the four things the decorator reads from it;
  \<^item> the settings object is a record of the three attributes the decorator reads, each
    an option: \<open>None\<close> is an attribute that the settings module does not define;
  \<^item> \<open>RequestValidator(token).validate(url, post, signature)\<close> is a parameter
    \<open>validate token url post signature\<close>: the HMAC itself is the helper library's;
  \<^item> \<open>force_text\<close> on a TwiML object is a parameter too;
  \<^item> an exception is the left summand of the result, and the log records and the call of
    the wrapped view are written to a trace, in the order in which they happen.
\<close>

subsection \<open>Requests, settings, responses\<close>

datatype exn = AttributeError string | KeyError string | DisallowedHost string | ViewError string

record request =
  req_method :: string
  META :: "string \<rightharpoonup> string"
  POST :: "(string \<times> string) list"
  build_absolute_uri :: "exn + string"

text \<open>
  \<open>req_method\<close> is \<open>request.method\<close>. \<open>build_absolute_uri\<close> is what the call
  \<open>request.build_absolute_uri()\<close> does: it returns the URL as the server sees it, or it
  raises; Django raises \<open>DisallowedHost\<close> there when the host of the request is not an
  allowed one, and a \<open>KeyError\<close> when \<open>META\<close> has neither host nor server name. \<open>POST\<close>
  keeps the order and the repetitions of the submitted fields.
\<close>

record settings =
  TWILIO_SKIP_SIGNATURE_VALIDATION :: "bool option"
  SMS_DEBUG :: "bool option"
  TWILIO_AUTH_TOKEN :: "string option"

record http_response =
  status_code :: nat
  headers :: "(string \<times> string) list"
  content :: string

text \<open>
  What a view may hand back: text (\<open>six.text_type\<close>), a TwiML object, a response object,
  or anything else (a byte string, \<open>None\<close>), which the decorator does not look into.
\<close>

datatype 'm pyobj = Text string | TwiML 'm | Response http_response | Bytes string | PyNone

datatype log_arg = Str string | QueryDict "(string \<times> string) list"

datatype ('a, 'k) event =
    Log_error string "log_arg list"
  | Log_exception string exn
  | Call request 'a 'k

subsection \<open>Python and Django primitives the decorator calls\<close>

text \<open>\<open>repr\<close> of a text made of letters, digits and underscores: the text in single quotes.\<close>

definition repr :: "string \<Rightarrow> string" where
  "repr s = CHR 0x27 # s @ [CHR 0x27]"

text \<open>\<open>str(e)\<close>: the message of an exception; for a \<open>KeyError\<close>, the \<open>repr\<close> of the key.\<close>

fun str_exn :: "exn \<Rightarrow> string" where
  "str_exn (AttributeError m) = m"
| "str_exn (KeyError k) = repr k"
| "str_exn (DisallowedHost m) = m"
| "str_exn (ViewError m) = m"

text \<open>\<open>sep.join(xs)\<close>, and the iteration over a text, which yields its characters.\<close>

fun join :: "string \<Rightarrow> string list \<Rightarrow> string" where
  "join sep [] = []"
| "join sep [x] = x"
| "join sep (x # y # ys) = x @ sep @ join sep (y # ys)"

definition iter_text :: "string \<Rightarrow> string list" where
  "iter_text s = map (\<lambda>c. [c]) s"

text \<open>\<open>getattr(settings, name, default)\<close> and the plain attribute access \<open>settings.name\<close>.\<close>

definition getattr_default :: "'v option \<Rightarrow> 'v \<Rightarrow> 'v" where
  "getattr_default attr d = (case attr of None \<Rightarrow> d | Some v \<Rightarrow> v)"

definition getattr_settings :: "string \<Rightarrow> 'v option \<Rightarrow> exn + 'v" where
  "getattr_settings name attr =
     (case attr of
        None \<Rightarrow> Inl (AttributeError (repr ''Settings'' @ '' object has no attribute '' @ repr name))
      | Some v \<Rightarrow> Inr v)"

text \<open>\<open>key in request.META\<close> and \<open>request.META[key]\<close>.\<close>

definition META_contains :: "request \<Rightarrow> string \<Rightarrow> bool" where
  "META_contains req k = (META req k \<noteq> None)"

definition META_getitem :: "request \<Rightarrow> string \<Rightarrow> exn + string" where
  "META_getitem req k = (case META req k of None \<Rightarrow> Inl (KeyError k) | Some v \<Rightarrow> Inr v)"

text \<open>
  Django's response classes, as in the releases that take the keyword \<open>mimetype\<close> (up to
  1.6). \<open>HttpResponse(content, mimetype=m)\<close> has status 200 and the content type \<open>m\<close>,
  or the default one when no \<open>mimetype\<close> is given;
  \<open>HttpResponseForbidden\<close> has status 403; \<open>HttpResponseNotAllowed(permitted_methods)\<close>
  has status 405 and the header \<open>Allow\<close>, set to \<open>', '.join(permitted_methods)\<close>.
\<close>

definition default_content_type :: string where
  "default_content_type = ''text/html; charset=utf-8''"

definition HttpResponse :: "string \<Rightarrow> string option \<Rightarrow> http_response" where
  "HttpResponse body mimetype =
     \<lparr>status_code = 200,
      headers = [(''Content-Type'', getattr_default mimetype default_content_type)],
      content = body\<rparr>"

definition HttpResponseForbidden :: "string \<Rightarrow> http_response" where
  "HttpResponseForbidden body = (HttpResponse body None)\<lparr>status_code := 403\<rparr>"

definition HttpResponseNotAllowed :: "string list \<Rightarrow> http_response" where
  "HttpResponseNotAllowed permitted_methods =
     (HttpResponse [] None)
       \<lparr>status_code := 405,
        headers := headers (HttpResponse [] None) @ [(''Allow'', join '', '' permitted_methods)]\<rparr>"

subsection \<open>The decorator\<close>

text \<open>Sequencing of steps that may raise: the first exception ends the block.\<close>

definition then_exn :: "exn + 'x \<Rightarrow> ('x \<Rightarrow> exn + 'y) \<Rightarrow> exn + 'y" where
  "then_exn r k = (case r of Inl e \<Rightarrow> Inl e | Inr v \<Rightarrow> k v)"

text \<open>
  Lines 66 to 68: the URL behind a proxy. The three subscripts are evaluated from left to
  right, so the first missing key is the one the \<open>KeyError\<close> names.
\<close>

definition forwarded_url :: "request \<Rightarrow> exn + string" where
  "forwarded_url req =
     then_exn (META_getitem req ''HTTP_X_FORWARDED_PROTO'') (\<lambda>proto.
     then_exn (META_getitem req ''HTTP_X_FORWARDED_SERVER'') (\<lambda>server.
     then_exn (META_getitem req ''REQUEST_URI'') (\<lambda>uri.
     Inr (proto @ ''://'' @ server @ uri))))"

text \<open>
  Lines 61 to 69, the body of the \<open>try\<close>: the auth token of the validator, the URL and
  the signature, or the first exception raised on the way. Line 62 builds the server's own
  URL before line 65 looks for the proxy header, whether or not that URL is used.
\<close>

definition validation_inputs :: "settings \<Rightarrow> request \<Rightarrow> exn + (string \<times> string \<times> string)" where
  "validation_inputs st req =
     then_exn (getattr_settings ''TWILIO_AUTH_TOKEN'' (TWILIO_AUTH_TOKEN st)) (\<lambda>token.
     then_exn (build_absolute_uri req) (\<lambda>local_url.
     then_exn (if META_contains req ''HTTP_X_FORWARDED_SERVER''
               then forwarded_url req
               else Inr local_url) (\<lambda>url.
     then_exn (META_getitem req ''HTTP_X_TWILIO_SIGNATURE'') (\<lambda>signature.
     Inr (token, url, signature)))))"

text \<open>
  The clause \<open>except (AttributeError, KeyError)\<close> of line 70. Any other exception of the
  \<open>try\<close> block leaves the decorator.
\<close>

fun caught :: "exn \<Rightarrow> bool" where
  "caught (AttributeError m) = True"
| "caught (KeyError k) = True"
| "caught (DisallowedHost m) = False"
| "caught (ViewError m) = False"

text \<open>Lines 91 to 96: what is made of the value the view returned.\<close>

fun coerce :: "('m \<Rightarrow> string) \<Rightarrow> 'm pyobj \<Rightarrow> 'm pyobj" where
  "coerce force_text (Text t) = Response (HttpResponse t (Some ''application/xml''))"
| "coerce force_text (TwiML m) = Response (HttpResponse (force_text m) (Some ''application/xml''))"
| "coerce force_text response = response"

text \<open>
  Lines 84 to 96: the wrapped view is called with the request and the arguments the
  decorator received; an exception of the view is not caught.
\<close>

definition run_view ::
  "('m \<Rightarrow> string) \<Rightarrow> (request \<Rightarrow> 'a \<Rightarrow> 'k \<Rightarrow> exn + 'm pyobj) \<Rightarrow> request \<Rightarrow> 'a \<Rightarrow> 'k
     \<Rightarrow> (exn + 'm pyobj) \<times> ('a, 'k) event list" where
  "run_view force_text f req args kwargs =
     (then_exn (f req args kwargs) (\<lambda>response. Inr (coerce force_text response)),
      [Call req args kwargs])"

text \<open>The decorated view, lines 48 to 96.\<close>

definition twilio_view ::
  "(string \<Rightarrow> string \<Rightarrow> (string \<times> string) list \<Rightarrow> string \<Rightarrow> bool) \<Rightarrow> ('m \<Rightarrow> string) \<Rightarrow> settings
     \<Rightarrow> (request \<Rightarrow> 'a \<Rightarrow> 'k \<Rightarrow> exn + 'm pyobj) \<Rightarrow> request \<Rightarrow> 'a \<Rightarrow> 'k
     \<Rightarrow> (exn + 'm pyobj) \<times> ('a, 'k) event list" where
  "twilio_view validate force_text st f req args kwargs =
     (if req_method req \<noteq> ''POST''
      then (Inr (Response (HttpResponseNotAllowed (iter_text (req_method req)))),
            [Log_error ''Twilio: Expected POST request'' []])
      else if \<not> getattr_default (TWILIO_SKIP_SIGNATURE_VALIDATION st) False
      then (case validation_inputs st req of
              Inl e \<Rightarrow>
                if caught e
                then (Inr (Response (HttpResponseForbidden (''Missing META param: '' @ str_exn e))),
                      [Log_exception ''Twilio: Missing META param'' e])
                else (Inl e, [])
            | Inr (token, url, signature) \<Rightarrow>
                if \<not> validate token url (POST req) signature \<and> \<not> getattr_default (SMS_DEBUG st) False
                then (Inr (Response (HttpResponseForbidden ''Invalid signature'')),
                      [Log_error ''Twilio: Invalid url signature %s - %s - %s''
                         [Str url, QueryDict (POST req), Str signature]])
                else run_view force_text f req args kwargs)
      else run_view force_text f req args kwargs)"

subsection \<open>Reading a run of the decorator\<close>

fun is_call :: "('a, 'k) event \<Rightarrow> bool" where
  "is_call (Call req args kwargs) = True"
| "is_call e = False"

definition calls :: "(exn + 'm pyobj) \<times> ('a, 'k) event list \<Rightarrow> ('a, 'k) event list" where
  "calls run = filter is_call (snd run)"

definition logs :: "(exn + 'm pyobj) \<times> ('a, 'k) event list \<Rightarrow> ('a, 'k) event list" where
  "logs run = filter (\<lambda>e. \<not> is_call e) (snd run)"

text \<open>The response a run ended with, when it ended with one.\<close>

definition returned :: "(exn + 'm pyobj) \<times> ('a, 'k) event list \<Rightarrow> http_response option" where
  "returned run = (case fst run of Inr (Response r) \<Rightarrow> Some r | _ \<Rightarrow> None)"

definition header :: "http_response \<Rightarrow> string \<Rightarrow> string option" where
  "header r name = map_of (headers r) name"

subsection \<open>Inputs for the examples\<close>

text \<open>The view of the documentation, which answers every message with the same TwiML text.\<close>

definition hi_view :: "request \<Rightarrow> unit \<Rightarrow> unit \<Rightarrow> exn + unit pyobj" where
  "hi_view req args kwargs = Inr (Text ''<Response><Sms>hi</Sms></Response>'')"

text \<open>A validator that accepts exactly one signature for one URL under one token.\<close>

definition validate_ex :: "string \<Rightarrow> string \<Rightarrow> (string \<times> string) list \<Rightarrow> string \<Rightarrow> bool" where
  "validate_ex token url post signature =
     (token = ''secret'' \<and> url = ''https://sms.example.org/in/'' \<and> signature = ''c2lnbmVk'')"

definition no_text :: "unit \<Rightarrow> string" where
  "no_text m = []"

definition settings_ex :: "bool option \<Rightarrow> bool option \<Rightarrow> string option \<Rightarrow> settings" where
  "settings_ex skip debug token =
     \<lparr>TWILIO_SKIP_SIGNATURE_VALIDATION = skip, SMS_DEBUG = debug, TWILIO_AUTH_TOKEN = token\<rparr>"

definition request_ex :: "string \<Rightarrow> (string \<times> string) list \<Rightarrow> request" where
  "request_ex m meta =
     \<lparr>req_method = m, META = map_of meta, POST = [(''Body'', ''hello'')],
      build_absolute_uri = Inr ''http://10.0.0.5:8000/in/''\<rparr>"

text \<open>The same request with a host that Django does not allow.\<close>

definition request_bad_host :: "string \<Rightarrow> (string \<times> string) list \<Rightarrow> request" where
  "request_bad_host m meta =
     (request_ex m meta)\<lparr>build_absolute_uri := Inl (DisallowedHost ''Invalid HTTP_HOST header'')\<rparr>"

text \<open>
  A request that came through a proxy: the URL Twilio signed is
  \<open>https://sms.example.org/in/\<close>, the server sees \<open>http://10.0.0.5:8000/in/\<close>.
\<close>

definition meta_proxied :: "(string \<times> string) list" where
  "meta_proxied =
     [(''HTTP_X_FORWARDED_PROTO'', ''https''), (''HTTP_X_FORWARDED_SERVER'', ''sms.example.org''),
      (''REQUEST_URI'', ''/in/''), (''HTTP_X_TWILIO_SIGNATURE'', ''c2lnbmVk'')]"

text \<open>A view that builds its own response.\<close>

definition queued_view :: "request \<Rightarrow> unit \<Rightarrow> unit \<Rightarrow> exn + unit pyobj" where
  "queued_view req args kwargs =
     Inr (Response \<lparr>status_code = 202, headers = [(''X-Queue'', ''sms'')], content = ''queued''\<rparr>)"

subsection \<open>Missing fields\<close>

text \<open>
  The run that ends in the \<open>except\<close> clause, lines 70 to 72, after the exception \<open>e\<close>:
  the log record and the answer with status 403, whose body is the fixed prefix followed
  by \<open>str(e)\<close>.
\<close>

definition refused :: "exn \<Rightarrow> (exn + 'm pyobj) \<times> ('a, 'k) event list" where
  "refused e =
     (Inr (Response \<lparr>status_code = 403, headers = [(''Content-Type'', ''text/html; charset=utf-8'')],
                     content = ''Missing META param: '' @ str_exn e\<rparr>),
      [Log_exception ''Twilio: Missing META param'' e])"

section \<open>Properties\<close>

lemmas ex_defs = settings_ex_def request_ex_def validate_ex_def hi_view_def no_text_def

lemmas run_defs = twilio_view_def run_view_def validation_inputs_def forwarded_url_def then_exn_def
  getattr_settings_def getattr_default_def META_getitem_def META_contains_def
  calls_def logs_def returned_def header_def

lemmas resp_defs = HttpResponse_def HttpResponseForbidden_def HttpResponseNotAllowed_def
  default_content_type_def iter_text_def repr_def

subsection \<open>The branches of the decorator\<close>

lemma sublist_repr: "sublist s (a @ repr s @ b)"
proof -
  have "a @ repr s @ b = (a @ [CHR 0x27]) @ s @ (CHR 0x27 # b)"
    by (simp add: repr_def)
  then show ?thesis
    unfolding sublist_def by blast
qed

lemma non_post_run:
  "req_method req \<noteq> ''POST'' \<Longrightarrow>
   twilio_view validate force_text st f req args kwargs =
     (Inr (Response (HttpResponseNotAllowed (iter_text (req_method req)))),
      [Log_error ''Twilio: Expected POST request'' []])"
  by (simp add: twilio_view_def)

lemma missing_run:
  assumes "req_method req = ''POST''"
    and "\<not> getattr_default (TWILIO_SKIP_SIGNATURE_VALIDATION st) False"
    and "validation_inputs st req = Inl e"
    and "caught e"
  shows "twilio_view validate force_text st f req args kwargs =
     (Inr (Response (HttpResponseForbidden (''Missing META param: '' @ str_exn e))),
      [Log_exception ''Twilio: Missing META param'' e])"
  using assms by (simp add: twilio_view_def)

lemma refused_run:
  assumes "req_method req = ''POST''"
    and "\<not> getattr_default (TWILIO_SKIP_SIGNATURE_VALIDATION st) False"
    and "validation_inputs st req = Inl e"
    and "caught e"
  shows "twilio_view validate force_text st f req args kwargs = refused e"
  unfolding missing_run [OF assms]
  by (simp add: refused_def HttpResponseForbidden_def HttpResponse_def getattr_default_def
        default_content_type_def)

text \<open>An exception of the \<open>try\<close> block that line 70 does not name leaves the decorator.\<close>

lemma uncaught_run:
  assumes "req_method req = ''POST''"
    and "\<not> getattr_default (TWILIO_SKIP_SIGNATURE_VALIDATION st) False"
    and "validation_inputs st req = Inl e"
    and "\<not> caught e"
  shows "twilio_view validate force_text st f req args kwargs = (Inl e, [])"
  using assms by (simp add: twilio_view_def)

lemma checked_run:
  assumes "req_method req = ''POST''"
    and "\<not> getattr_default (TWILIO_SKIP_SIGNATURE_VALIDATION st) False"
    and "validation_inputs st req = Inr (token, url, signature)"
  shows "twilio_view validate force_text st f req args kwargs =
     (if \<not> validate token url (POST req) signature \<and> \<not> getattr_default (SMS_DEBUG st) False
      then (Inr (Response (HttpResponseForbidden ''Invalid signature'')),
            [Log_error ''Twilio: Invalid url signature %s - %s - %s''
               [Str url, QueryDict (POST req), Str signature]])
      else run_view force_text f req args kwargs)"
  using assms by (simp add: twilio_view_def)

lemma skipped_run:
  assumes "req_method req = ''POST''"
    and "getattr_default (TWILIO_SKIP_SIGNATURE_VALIDATION st) False"
  shows "twilio_view validate force_text st f req args kwargs = run_view force_text f req args kwargs"
  using assms by (simp add: twilio_view_def)


lemma logs_run_view: "logs (run_view force_text f req args kwargs) = []"
  by (simp add: logs_def run_view_def)

lemma calls_refused: "calls (refused e) = []"
  by (simp add: calls_def refused_def)

text \<open>A run in which the view was called is a run of lines 84 to 96.\<close>

lemma accepted_run:
  assumes "calls (twilio_view validate force_text st f req args kwargs) \<noteq> []"
  shows "twilio_view validate force_text st f req args kwargs = run_view force_text f req args kwargs"
  using assms
  by (auto simp: twilio_view_def calls_def split: if_splits sum.splits prod.splits)

subsection \<open>What the \<open>try\<close> block raises\<close>

text \<open>
  When line 62 raises, the exception is the outcome of the block, whatever the proxy
  fields and the signature are; only a missing auth token comes before it.
\<close>

lemma build_failure:
  assumes "TWILIO_AUTH_TOKEN st = Some token"
    and "build_absolute_uri req = Inl e"
  shows "validation_inputs st req = Inl e"
  using assms by (simp add: validation_inputs_def getattr_settings_def then_exn_def)

text \<open>
  A request whose host Django does not allow is not answered with status 403: the
  \<open>DisallowedHost\<close> of line 62 is not caught, also when the signature is missing.
\<close>

lemma disallowed_host_propagates:
  "twilio_view validate_ex no_text (settings_ex None None (Some ''secret'')) hi_view
     (request_bad_host ''POST'' []) () ()
   = (Inl (DisallowedHost ''Invalid HTTP_HOST header''), [])"
  by (simp add: twilio_view_def validation_inputs_def getattr_settings_def getattr_default_def
        then_exn_def settings_ex_def request_bad_host_def request_ex_def)

text \<open>
  Without signature the block always fails. When the token is configured and line 62
  returns, it fails on the first of the subscripts of lines 67 and 69 that finds no entry.
\<close>

lemma first_failure:
  assumes "META req ''HTTP_X_TWILIO_SIGNATURE'' = None"
    and "TWILIO_AUTH_TOKEN st = None \<or> build_absolute_uri req = Inr local_url"
  shows "validation_inputs st req = Inl
     (if TWILIO_AUTH_TOKEN st = None
      then AttributeError (repr ''Settings'' @ '' object has no attribute ''
                             @ repr ''TWILIO_AUTH_TOKEN'')
      else if META req ''HTTP_X_FORWARDED_SERVER'' = None
      then KeyError ''HTTP_X_TWILIO_SIGNATURE''
      else if META req ''HTTP_X_FORWARDED_PROTO'' = None
      then KeyError ''HTTP_X_FORWARDED_PROTO''
      else if META req ''REQUEST_URI'' = None
      then KeyError ''REQUEST_URI''
      else KeyError ''HTTP_X_TWILIO_SIGNATURE'')"
  using assms
  by (auto simp: validation_inputs_def forwarded_url_def then_exn_def getattr_settings_def
        META_getitem_def META_contains_def)

subsection \<open>Rejected signatures\<close>

text \<open>
  C1. A POST request for which the \<open>try\<close> block yields the configured token, the URL and
  the signature of the request, and whose signature the validator rejects for that URL
  and the POST fields, is answered with status 403 and the body \<open>Invalid signature\<close> when
  neither \<open>SMS_DEBUG\<close> nor \<open>TWILIO_SKIP_SIGNATURE_VALIDATION\<close> is set; the mismatch is
  logged and the wrapped view is not called.
\<close>

theorem invalid_signature_forbidden:
  assumes "req_method req = ''POST''"
    and "\<not> getattr_default (TWILIO_SKIP_SIGNATURE_VALIDATION st) False"
    and "\<not> getattr_default (SMS_DEBUG st) False"
    and "validation_inputs st req = Inr (token, url, signature)"
    and "\<not> validate token url (POST req) signature"
  shows "twilio_view validate force_text st f req args kwargs
           = (Inr (Response
                \<lparr>status_code = 403, headers = [(''Content-Type'', ''text/html; charset=utf-8'')],
                 content = ''Invalid signature''\<rparr>),
              [Log_error ''Twilio: Invalid url signature %s - %s - %s''
                 [Str url, QueryDict (POST req), Str signature]])
       \<and> calls (twilio_view validate force_text st f req args kwargs) = []"
  unfolding checked_run [OF assms(1,2,4)] using assms(3,5)
  by (simp add: calls_def HttpResponseForbidden_def HttpResponse_def getattr_default_def
        default_content_type_def)

theorem invalid_signature_forbidden_witness:
  "validation_inputs (settings_ex None None (Some ''secret''))
      (request_ex ''POST'' [(''HTTP_X_TWILIO_SIGNATURE'', ''Zm9yZ2Vk'')])
     = Inr (''secret'', ''http://10.0.0.5:8000/in/'', ''Zm9yZ2Vk'')
   \<and> \<not> validate_ex ''secret'' ''http://10.0.0.5:8000/in/'' [(''Body'', ''hello'')] ''Zm9yZ2Vk''
   \<and> returned (twilio_view validate_ex no_text (settings_ex None None (Some ''secret'')) hi_view
            (request_ex ''POST'' [(''HTTP_X_TWILIO_SIGNATURE'', ''Zm9yZ2Vk'')]) () ())
      = Some \<lparr>status_code = 403, headers = [(''Content-Type'', ''text/html; charset=utf-8'')],
              content = ''Invalid signature''\<rparr>
   \<and> calls (twilio_view validate_ex no_text (settings_ex None None (Some ''secret'')) hi_view
            (request_ex ''POST'' [(''HTTP_X_TWILIO_SIGNATURE'', ''Zm9yZ2Vk'')]) () ()) = []"
proof -
  have m: "req_method (request_ex ''POST'' [(''HTTP_X_TWILIO_SIGNATURE'', ''Zm9yZ2Vk'')]) = ''POST''"
    by (simp add: request_ex_def)
  have s: "\<not> getattr_default
              (TWILIO_SKIP_SIGNATURE_VALIDATION (settings_ex None None (Some ''secret''))) False"
    by (simp add: settings_ex_def getattr_default_def)
  have d: "\<not> getattr_default (SMS_DEBUG (settings_ex None None (Some ''secret''))) False"
    by (simp add: settings_ex_def getattr_default_def)
  have v: "validation_inputs (settings_ex None None (Some ''secret''))
      (request_ex ''POST'' [(''HTTP_X_TWILIO_SIGNATURE'', ''Zm9yZ2Vk'')])
     = Inr (''secret'', ''http://10.0.0.5:8000/in/'', ''Zm9yZ2Vk'')"
    by (simp add: ex_defs run_defs)
  have p: "POST (request_ex ''POST'' [(''HTTP_X_TWILIO_SIGNATURE'', ''Zm9yZ2Vk'')]) = [(''Body'', ''hello'')]"
    by (simp add: request_ex_def)
  have b: "\<not> validate_ex ''secret'' ''http://10.0.0.5:8000/in/''
             (POST (request_ex ''POST'' [(''HTTP_X_TWILIO_SIGNATURE'', ''Zm9yZ2Vk'')])) ''Zm9yZ2Vk''"
    by (simp add: validate_ex_def)
  from invalid_signature_forbidden [where validate = validate_ex and force_text = no_text
        and f = hi_view and args = "()" and kwargs = "()", OF m s d v b] v b p
  show ?thesis
    by (simp add: returned_def calls_def)
qed

subsection \<open>Missing signature\<close>

text \<open>
  C2, as the specification states it: every POST request without the signature header is
  answered with status 403 and the view is not called. With
  \<open>TWILIO_SKIP_SIGNATURE_VALIDATION\<close> set the decorator never reads the header: the
  request below has no signature, the view is called and the answer has status 200.
\<close>

theorem missing_signature_accepted_when_skipped:
  "META (request_ex ''POST'' []) ''HTTP_X_TWILIO_SIGNATURE'' = None
   \<and> returned (twilio_view validate_ex no_text (settings_ex (Some True) None (Some ''secret'')) hi_view
        (request_ex ''POST'' []) () ())
      = Some \<lparr>status_code = 200, headers = [(''Content-Type'', ''application/xml'')],
              content = ''<Response><Sms>hi</Sms></Response>''\<rparr>
   \<and> calls (twilio_view validate_ex no_text (settings_ex (Some True) None (Some ''secret'')) hi_view
        (request_ex ''POST'' []) () ())
      = [Call (request_ex ''POST'' []) () ()]"
  by (simp add: ex_defs run_defs HttpResponse_def)

text \<open>
  C2, amended: when signature validation is not skipped, a POST request without the
  signature header, for which the auth token is missing or \<open>request.build_absolute_uri()\<close>
  returns, is answered with status 403 and the view is not called. The body is
  \<open>Missing META param:\<close> followed by the text of the first lookup that fails: the message
  about the attribute \<open>TWILIO_AUTH_TOKEN\<close> when the settings do not define it; otherwise
  the quoted name \<open>HTTP_X_TWILIO_SIGNATURE\<close> when the request has no
  \<open>HTTP_X_FORWARDED_SERVER\<close>; otherwise the quoted name of \<open>HTTP_X_FORWARDED_PROTO\<close>, else
  of \<open>REQUEST_URI\<close>, when that entry is missing, and of the signature header when both are
  there. The same exception is in the log record. What happens when the token is
  configured and \<open>request.build_absolute_uri()\<close> raises is not part of the statement.
\<close>

theorem missing_signature_forbidden:
  assumes "req_method req = ''POST''"
    and "\<not> getattr_default (TWILIO_SKIP_SIGNATURE_VALIDATION st) False"
    and "META req ''HTTP_X_TWILIO_SIGNATURE'' = None"
    and "TWILIO_AUTH_TOKEN st = None \<or> build_absolute_uri req = Inr local_url"
  shows "twilio_view validate force_text st f req args kwargs
           = refused
               (if TWILIO_AUTH_TOKEN st = None
                then AttributeError (repr ''Settings'' @ '' object has no attribute ''
                                       @ repr ''TWILIO_AUTH_TOKEN'')
                else if META req ''HTTP_X_FORWARDED_SERVER'' = None
                then KeyError ''HTTP_X_TWILIO_SIGNATURE''
                else if META req ''HTTP_X_FORWARDED_PROTO'' = None
                then KeyError ''HTTP_X_FORWARDED_PROTO''
                else if META req ''REQUEST_URI'' = None
                then KeyError ''REQUEST_URI''
                else KeyError ''HTTP_X_TWILIO_SIGNATURE'')
       \<and> calls (twilio_view validate force_text st f req args kwargs) = []"
proof -
  let ?e = "if TWILIO_AUTH_TOKEN st = None
            then AttributeError (repr ''Settings'' @ '' object has no attribute ''
                                   @ repr ''TWILIO_AUTH_TOKEN'')
            else if META req ''HTTP_X_FORWARDED_SERVER'' = None
            then KeyError ''HTTP_X_TWILIO_SIGNATURE''
            else if META req ''HTTP_X_FORWARDED_PROTO'' = None
            then KeyError ''HTTP_X_FORWARDED_PROTO''
            else if META req ''REQUEST_URI'' = None
            then KeyError ''REQUEST_URI''
            else KeyError ''HTTP_X_TWILIO_SIGNATURE''"
  have e: "validation_inputs st req = Inl ?e"
    by (rule first_failure [OF assms(3,4)])
  have c: "caught ?e"
    by simp
  have run: "twilio_view validate force_text st f req args kwargs = refused ?e"
    by (rule refused_run [OF assms(1,2) e c])
  show ?thesis
    unfolding run by (simp add: calls_refused)
qed

theorem missing_signature_forbidden_witness:
  "META (request_ex ''POST'' []) ''HTTP_X_TWILIO_SIGNATURE'' = None
   \<and> twilio_view validate_ex no_text (settings_ex None None (Some ''secret'')) hi_view
        (request_ex ''POST'' []) () ()
      = (Inr (Response
           \<lparr>status_code = 403, headers = [(''Content-Type'', ''text/html; charset=utf-8'')],
            content = ''Missing META param: '' @ repr ''HTTP_X_TWILIO_SIGNATURE''\<rparr>),
         [Log_exception ''Twilio: Missing META param'' (KeyError ''HTTP_X_TWILIO_SIGNATURE'')])
   \<and> META (request_ex ''POST'' [(''HTTP_X_FORWARDED_SERVER'', ''sms.example.org'')])
        ''HTTP_X_TWILIO_SIGNATURE'' = None
   \<and> twilio_view validate_ex no_text (settings_ex None None (Some ''secret'')) hi_view
        (request_ex ''POST'' [(''HTTP_X_FORWARDED_SERVER'', ''sms.example.org'')]) () ()
      = (Inr (Response
           \<lparr>status_code = 403, headers = [(''Content-Type'', ''text/html; charset=utf-8'')],
            content = ''Missing META param: '' @ repr ''HTTP_X_FORWARDED_PROTO''\<rparr>),
         [Log_exception ''Twilio: Missing META param'' (KeyError ''HTTP_X_FORWARDED_PROTO'')])"
proof -
  have s: "\<not> getattr_default
              (TWILIO_SKIP_SIGNATURE_VALIDATION (settings_ex None None (Some ''secret''))) False"
    by (simp add: settings_ex_def getattr_default_def)
  have m1: "req_method (request_ex ''POST'' []) = ''POST''"
    by (simp add: request_ex_def)
  have h1: "META (request_ex ''POST'' []) ''HTTP_X_TWILIO_SIGNATURE'' = None"
    by (simp add: request_ex_def)
  have u1: "TWILIO_AUTH_TOKEN (settings_ex None None (Some ''secret'')) = None
            \<or> build_absolute_uri (request_ex ''POST'' []) = Inr ''http://10.0.0.5:8000/in/''"
    by (simp add: request_ex_def)
  have r1: "twilio_view validate_ex no_text (settings_ex None None (Some ''secret'')) hi_view
        (request_ex ''POST'' []) () ()
      = (Inr (Response
           \<lparr>status_code = 403, headers = [(''Content-Type'', ''text/html; charset=utf-8'')],
            content = ''Missing META param: '' @ repr ''HTTP_X_TWILIO_SIGNATURE''\<rparr>),
         [Log_exception ''Twilio: Missing META param'' (KeyError ''HTTP_X_TWILIO_SIGNATURE'')])"
    using missing_signature_forbidden [where validate = validate_ex and force_text = no_text
        and f = hi_view and args = "()" and kwargs = "()", OF m1 s h1 u1]
    by (simp add: refused_def settings_ex_def request_ex_def)
  have m2: "req_method (request_ex ''POST'' [(''HTTP_X_FORWARDED_SERVER'', ''sms.example.org'')])
              = ''POST''"
    by (simp add: request_ex_def)
  have h2: "META (request_ex ''POST'' [(''HTTP_X_FORWARDED_SERVER'', ''sms.example.org'')])
              ''HTTP_X_TWILIO_SIGNATURE'' = None"
    by (simp add: request_ex_def)
  have u2: "TWILIO_AUTH_TOKEN (settings_ex None None (Some ''secret'')) = None
            \<or> build_absolute_uri (request_ex ''POST'' [(''HTTP_X_FORWARDED_SERVER'', ''sms.example.org'')])
                = Inr ''http://10.0.0.5:8000/in/''"
    by (simp add: request_ex_def)
  have r2: "twilio_view validate_ex no_text (settings_ex None None (Some ''secret'')) hi_view
        (request_ex ''POST'' [(''HTTP_X_FORWARDED_SERVER'', ''sms.example.org'')]) () ()
      = (Inr (Response
           \<lparr>status_code = 403, headers = [(''Content-Type'', ''text/html; charset=utf-8'')],
            content = ''Missing META param: '' @ repr ''HTTP_X_FORWARDED_PROTO''\<rparr>),
         [Log_exception ''Twilio: Missing META param'' (KeyError ''HTTP_X_FORWARDED_PROTO'')])"
    using missing_signature_forbidden [where validate = validate_ex and force_text = no_text
        and f = hi_view and args = "()" and kwargs = "()", OF m2 s h2 u2]
    by (simp add: refused_def settings_ex_def request_ex_def)
  show ?thesis
    by (rule conjI [OF h1 conjI [OF r1 conjI [OF h2 r2]]])
qed

subsection \<open>Methods other than POST\<close>

text \<open>
  C5. A request whose method is not POST is answered with status 405 and the view is not
  called (\<open>non_post_run\<close>). The answer does not list POST as the allowed method: line 56
  hands the method of the request to \<open>HttpResponseNotAllowed\<close> where the list of
  permitted methods belongs, and \<open>join\<close> runs over its characters. For a GET request the
  header \<open>Allow\<close> reads \<open>G, E, T\<close>.
\<close>

theorem not_allowed_lists_request_characters:
  "returned (twilio_view validate_ex no_text (settings_ex None None (Some ''secret'')) hi_view
      (request_ex ''GET'' [(''HTTP_X_TWILIO_SIGNATURE'', ''c2lnbmVk'')]) () ())
     = Some \<lparr>status_code = 405,
             headers = [(''Content-Type'', ''text/html; charset=utf-8''), (''Allow'', ''G, E, T'')],
             content = []\<rparr>
   \<and> calls (twilio_view validate_ex no_text (settings_ex None None (Some ''secret'')) hi_view
      (request_ex ''GET'' [(''HTTP_X_TWILIO_SIGNATURE'', ''c2lnbmVk'')]) () ()) = []"
  by (simp add: twilio_view_def returned_def calls_def request_ex_def HttpResponseNotAllowed_def
      HttpResponse_def iter_text_def getattr_default_def default_content_type_def)

subsection \<open>The debug override\<close>

text \<open>
  C3, as the specification states it: with \<open>SMS_DEBUG\<close> set, a signature that fails
  validation is demoted to a warning in the log and the view is called. The view is
  called, but nothing is logged: the only log call for a mismatch, at lines 77 to 80, is
  inside the \<open>if\<close> of line 76, which \<open>SMS_DEBUG\<close> switches off. The run below has a
  rejected signature, \<open>SMS_DEBUG\<close> set, and no log record.
\<close>

theorem debug_mismatch_not_logged:
  "validation_inputs (settings_ex None (Some True) (Some ''secret''))
      (request_ex ''POST'' [(''HTTP_X_TWILIO_SIGNATURE'', ''Zm9yZ2Vk'')])
     = Inr (''secret'', ''http://10.0.0.5:8000/in/'', ''Zm9yZ2Vk'')
   \<and> \<not> validate_ex ''secret'' ''http://10.0.0.5:8000/in/'' [(''Body'', ''hello'')] ''Zm9yZ2Vk''
   \<and> logs (twilio_view validate_ex no_text (settings_ex None (Some True) (Some ''secret'')) hi_view
        (request_ex ''POST'' [(''HTTP_X_TWILIO_SIGNATURE'', ''Zm9yZ2Vk'')]) () ()) = []"
  by (simp add: ex_defs run_defs)

text \<open>
  C3, amended: for a POST request whose signature fails validation while \<open>SMS_DEBUG\<close> is
  set and validation is not skipped, the mismatch is not logged and the request is treated
  as a success: the run is the call of the wrapped view, with the request and the
  arguments the decorator received, and the coercion of what the view returned; the trace
  holds that call and nothing else.
\<close>

theorem debug_override_runs_view:
  assumes "req_method req = ''POST''"
    and "\<not> getattr_default (TWILIO_SKIP_SIGNATURE_VALIDATION st) False"
    and "getattr_default (SMS_DEBUG st) False"
    and "validation_inputs st req = Inr (token, url, signature)"
    and "\<not> validate token url (POST req) signature"
  shows "twilio_view validate force_text st f req args kwargs
           = (then_exn (f req args kwargs) (\<lambda>response. Inr (coerce force_text response)),
              [Call req args kwargs])"
  unfolding checked_run [OF assms(1,2,4)] using assms(3) by (simp add: run_view_def)

theorem debug_override_runs_view_witness:
  "validation_inputs (settings_ex None (Some True) (Some ''secret''))
      (request_ex ''POST'' [(''HTTP_X_TWILIO_SIGNATURE'', ''Zm9yZ2Vk'')])
     = Inr (''secret'', ''http://10.0.0.5:8000/in/'', ''Zm9yZ2Vk'')
   \<and> \<not> validate_ex ''secret'' ''http://10.0.0.5:8000/in/'' [(''Body'', ''hello'')] ''Zm9yZ2Vk''
   \<and> twilio_view validate_ex no_text (settings_ex None (Some True) (Some ''secret'')) hi_view
        (request_ex ''POST'' [(''HTTP_X_TWILIO_SIGNATURE'', ''Zm9yZ2Vk'')]) () ()
      = (Inr (Response (HttpResponse ''<Response><Sms>hi</Sms></Response>'' (Some ''application/xml''))),
         [Call (request_ex ''POST'' [(''HTTP_X_TWILIO_SIGNATURE'', ''Zm9yZ2Vk'')]) () ()])"
proof -
  have m: "req_method (request_ex ''POST'' [(''HTTP_X_TWILIO_SIGNATURE'', ''Zm9yZ2Vk'')]) = ''POST''"
    by (simp add: request_ex_def)
  have s: "\<not> getattr_default
              (TWILIO_SKIP_SIGNATURE_VALIDATION (settings_ex None (Some True) (Some ''secret''))) False"
    by (simp add: settings_ex_def getattr_default_def)
  have d: "getattr_default (SMS_DEBUG (settings_ex None (Some True) (Some ''secret''))) False"
    by (simp add: settings_ex_def getattr_default_def)
  have v: "validation_inputs (settings_ex None (Some True) (Some ''secret''))
      (request_ex ''POST'' [(''HTTP_X_TWILIO_SIGNATURE'', ''Zm9yZ2Vk'')])
     = Inr (''secret'', ''http://10.0.0.5:8000/in/'', ''Zm9yZ2Vk'')"
    by (simp add: ex_defs run_defs)
  have p: "POST (request_ex ''POST'' [(''HTTP_X_TWILIO_SIGNATURE'', ''Zm9yZ2Vk'')]) = [(''Body'', ''hello'')]"
    by (simp add: request_ex_def)
  have b: "\<not> validate_ex ''secret'' ''http://10.0.0.5:8000/in/''
             (POST (request_ex ''POST'' [(''HTTP_X_TWILIO_SIGNATURE'', ''Zm9yZ2Vk'')])) ''Zm9yZ2Vk''"
    by (simp add: validate_ex_def)
  from debug_override_runs_view [where validate = validate_ex and force_text = no_text and f = hi_view
        and args = "()" and kwargs = "()", OF m s d v b] v b p
  show ?thesis
    by (simp add: hi_view_def then_exn_def)
qed

subsection \<open>The URL behind a proxy\<close>

text \<open>
  C4, as the specification states it: whenever \<open>HTTP_X_FORWARDED_SERVER\<close> is present and
  the forwarded protocol or \<open>REQUEST_URI\<close> is absent, the answer has status 403. With
  \<open>TWILIO_SKIP_SIGNATURE_VALIDATION\<close> set no header is read: the request below has the
  forwarded server and no forwarded protocol, the view is called and the answer has
  status 200.
\<close>

theorem forwarded_fields_unchecked_when_skipped:
  "META (request_ex ''POST'' [(''HTTP_X_FORWARDED_SERVER'', ''sms.example.org'')])
      ''HTTP_X_FORWARDED_SERVER'' = Some ''sms.example.org''
   \<and> META (request_ex ''POST'' [(''HTTP_X_FORWARDED_SERVER'', ''sms.example.org'')])
      ''HTTP_X_FORWARDED_PROTO'' = None
   \<and> returned (twilio_view validate_ex no_text (settings_ex (Some True) None (Some ''secret'')) hi_view
        (request_ex ''POST'' [(''HTTP_X_FORWARDED_SERVER'', ''sms.example.org'')]) () ())
      = Some \<lparr>status_code = 200, headers = [(''Content-Type'', ''application/xml'')],
              content = ''<Response><Sms>hi</Sms></Response>''\<rparr>
   \<and> calls (twilio_view validate_ex no_text (settings_ex (Some True) None (Some ''secret'')) hi_view
        (request_ex ''POST'' [(''HTTP_X_FORWARDED_SERVER'', ''sms.example.org'')]) () ())
      = [Call (request_ex ''POST'' [(''HTTP_X_FORWARDED_SERVER'', ''sms.example.org'')]) () ()]"
  by (simp add: ex_defs run_defs HttpResponse_def)

text \<open>
  C4, amended: for a POST request with \<open>HTTP_X_FORWARDED_SERVER\<close> present, when
  validation is not skipped, the auth token is configured and
  \<open>request.build_absolute_uri()\<close> returns, the run is decided by the proxy fields, not by
  the URL that call returned: a missing \<open>HTTP_X_FORWARDED_PROTO\<close>, else a missing
  \<open>REQUEST_URI\<close>, else a missing signature gives status 403 with the quoted name of that
  field in the body, and the view is not called; with all of them present the validator
  is asked about the URL \<open>proto://server\<close> followed by the request URI. What happens when
  \<open>request.build_absolute_uri()\<close> raises is not part of the statement.
\<close>

theorem forwarded_url_validated:
  assumes "req_method req = ''POST''"
    and "\<not> getattr_default (TWILIO_SKIP_SIGNATURE_VALIDATION st) False"
    and "TWILIO_AUTH_TOKEN st = Some token"
    and "META req ''HTTP_X_FORWARDED_SERVER'' = Some server"
    and "build_absolute_uri req = Inr local_url"
  shows "twilio_view validate force_text st f req args kwargs =
     (case META req ''HTTP_X_FORWARDED_PROTO'' of
        None \<Rightarrow> refused (KeyError ''HTTP_X_FORWARDED_PROTO'')
      | Some proto \<Rightarrow>
         (case META req ''REQUEST_URI'' of
            None \<Rightarrow> refused (KeyError ''REQUEST_URI'')
          | Some uri \<Rightarrow>
             (case META req ''HTTP_X_TWILIO_SIGNATURE'' of
                None \<Rightarrow> refused (KeyError ''HTTP_X_TWILIO_SIGNATURE'')
              | Some signature \<Rightarrow>
                  if \<not> validate token (proto @ ''://'' @ server @ uri) (POST req) signature
                     \<and> \<not> getattr_default (SMS_DEBUG st) False
                  then (Inr (Response (HttpResponseForbidden ''Invalid signature'')),
                        [Log_error ''Twilio: Invalid url signature %s - %s - %s''
                           [Str (proto @ ''://'' @ server @ uri), QueryDict (POST req), Str signature]])
                  else run_view force_text f req args kwargs)))"
proof (cases "META req ''HTTP_X_FORWARDED_PROTO''")
  case None
  with assms(3,4,5) have vi: "validation_inputs st req = Inl (KeyError ''HTTP_X_FORWARDED_PROTO'')"
    by (simp add: validation_inputs_def forwarded_url_def then_exn_def getattr_settings_def
          META_getitem_def META_contains_def)
  have c: "caught (KeyError ''HTTP_X_FORWARDED_PROTO'')"
    by simp
  show ?thesis
    unfolding refused_run [OF assms(1,2) vi c] by (simp add: None)
next
  case proto: (Some proto)
  show ?thesis
  proof (cases "META req ''REQUEST_URI''")
    case None
    with proto assms(3,4,5) have vi: "validation_inputs st req = Inl (KeyError ''REQUEST_URI'')"
      by (simp add: validation_inputs_def forwarded_url_def then_exn_def getattr_settings_def
            META_getitem_def META_contains_def)
    have c: "caught (KeyError ''REQUEST_URI'')"
      by simp
    show ?thesis
      unfolding refused_run [OF assms(1,2) vi c] by (simp add: None proto)
  next
    case uri: (Some uri)
    show ?thesis
    proof (cases "META req ''HTTP_X_TWILIO_SIGNATURE''")
      case None
      with proto uri assms(3,4,5)
      have vi: "validation_inputs st req = Inl (KeyError ''HTTP_X_TWILIO_SIGNATURE'')"
        by (simp add: validation_inputs_def forwarded_url_def then_exn_def getattr_settings_def
              META_getitem_def META_contains_def)
      have c: "caught (KeyError ''HTTP_X_TWILIO_SIGNATURE'')"
        by simp
      show ?thesis
        unfolding refused_run [OF assms(1,2) vi c] by (simp add: None proto uri)
    next
      case (Some signature)
      with proto uri assms(3,4,5)
      have vi: "validation_inputs st req = Inr (token, proto @ ''://'' @ server @ uri, signature)"
        by (simp add: validation_inputs_def forwarded_url_def then_exn_def getattr_settings_def
              META_getitem_def META_contains_def)
      show ?thesis
        unfolding checked_run [OF assms(1,2) vi] by (simp add: Some proto uri)
    qed
  qed
qed

theorem forwarded_url_validated_witness:
  "build_absolute_uri (request_ex ''POST'' meta_proxied) = Inr ''http://10.0.0.5:8000/in/''
   \<and> \<not> validate_ex ''secret'' ''http://10.0.0.5:8000/in/'' [(''Body'', ''hello'')] ''c2lnbmVk''
   \<and> validate_ex ''secret'' ''https://sms.example.org/in/'' [(''Body'', ''hello'')] ''c2lnbmVk''
   \<and> twilio_view validate_ex no_text (settings_ex None None (Some ''secret'')) hi_view
        (request_ex ''POST'' meta_proxied) () ()
      = (Inr (Response (HttpResponse ''<Response><Sms>hi</Sms></Response>'' (Some ''application/xml''))),
         [Call (request_ex ''POST'' meta_proxied) () ()])
   \<and> twilio_view validate_ex no_text (settings_ex None None (Some ''secret'')) hi_view
        (request_ex ''POST'' (tl meta_proxied)) () ()
      = refused (KeyError ''HTTP_X_FORWARDED_PROTO'')
   \<and> twilio_view validate_ex no_text (settings_ex None None (Some ''secret'')) hi_view
        (request_ex ''POST'' (take 2 meta_proxied)) () ()
      = refused (KeyError ''REQUEST_URI'')"
proof -
  have a: "twilio_view validate_ex no_text (settings_ex None None (Some ''secret'')) hi_view
        (request_ex ''POST'' meta_proxied) () ()
      = (Inr (Response (HttpResponse ''<Response><Sms>hi</Sms></Response>'' (Some ''application/xml''))),
         [Call (request_ex ''POST'' meta_proxied) () ()])"
    using forwarded_url_validated [where validate = validate_ex and force_text = no_text and f = hi_view
        and args = "()" and kwargs = "()" and st = "settings_ex None None (Some ''secret'')"
        and req = "request_ex ''POST'' meta_proxied" and token = "''secret''"
        and server = "''sms.example.org''" and local_url = "''http://10.0.0.5:8000/in/''"]
    by (simp add: ex_defs meta_proxied_def getattr_default_def run_view_def then_exn_def)
  have b: "twilio_view validate_ex no_text (settings_ex None None (Some ''secret'')) hi_view
        (request_ex ''POST'' (tl meta_proxied)) () ()
      = refused (KeyError ''HTTP_X_FORWARDED_PROTO'')"
    using forwarded_url_validated [where validate = validate_ex and force_text = no_text and f = hi_view
        and args = "()" and kwargs = "()" and st = "settings_ex None None (Some ''secret'')"
        and req = "request_ex ''POST'' (tl meta_proxied)" and token = "''secret''"
        and server = "''sms.example.org''" and local_url = "''http://10.0.0.5:8000/in/''"]
    by (simp add: ex_defs meta_proxied_def getattr_default_def)
  have c: "twilio_view validate_ex no_text (settings_ex None None (Some ''secret'')) hi_view
        (request_ex ''POST'' (take 2 meta_proxied)) () ()
      = refused (KeyError ''REQUEST_URI'')"
    using forwarded_url_validated [where validate = validate_ex and force_text = no_text and f = hi_view
        and args = "()" and kwargs = "()" and st = "settings_ex None None (Some ''secret'')"
        and req = "request_ex ''POST'' (take 2 meta_proxied)" and token = "''secret''"
        and server = "''sms.example.org''" and local_url = "''http://10.0.0.5:8000/in/''"]
    by (simp add: ex_defs meta_proxied_def getattr_default_def)
  from a b c show ?thesis
    by (simp add: ex_defs)
qed

subsection \<open>Accepted requests\<close>



text \<open>
  C7. When the request is accepted (the view is called) and the view returns text, the
  answer has status 200, the content type \<open>application/xml\<close>, and the text as its body.
\<close>

theorem text_result_wrapped_as_xml:
  assumes "calls (twilio_view validate force_text st f req args kwargs) \<noteq> []"
    and "f req args kwargs = Inr (Text t)"
  shows "returned (twilio_view validate force_text st f req args kwargs)
           = Some \<lparr>status_code = 200, headers = [(''Content-Type'', ''application/xml'')], content = t\<rparr>"
  unfolding accepted_run [OF assms(1)] using assms(2)
  by (simp add: run_view_def returned_def then_exn_def HttpResponse_def getattr_default_def)

theorem text_result_wrapped_as_xml_witness:
  "calls (twilio_view validate_ex no_text (settings_ex None None (Some ''secret'')) hi_view
        (request_ex ''POST'' meta_proxied) () ()) \<noteq> []
   \<and> hi_view (request_ex ''POST'' meta_proxied) () () = Inr (Text ''<Response><Sms>hi</Sms></Response>'')
   \<and> returned (twilio_view validate_ex no_text (settings_ex None None (Some ''secret'')) hi_view
        (request_ex ''POST'' meta_proxied) () ())
      = Some \<lparr>status_code = 200, headers = [(''Content-Type'', ''application/xml'')],
              content = ''<Response><Sms>hi</Sms></Response>''\<rparr>"
proof -
  have c: "calls (twilio_view validate_ex no_text (settings_ex None None (Some ''secret'')) hi_view
        (request_ex ''POST'' meta_proxied) () ()) \<noteq> []"
    by (simp add: ex_defs meta_proxied_def run_defs)
  have h: "hi_view (request_ex ''POST'' meta_proxied) () () = Inr (Text ''<Response><Sms>hi</Sms></Response>'')"
    by (simp add: hi_view_def)
  from text_result_wrapped_as_xml [where validate = validate_ex and force_text = no_text and f = hi_view
      and args = "()" and kwargs = "()" and st = "settings_ex None None (Some ''secret'')"
      and req = "request_ex ''POST'' meta_proxied", OF c h] c h show ?thesis
    by (intro conjI)
qed

text \<open>
  C8. When the request is accepted and the view returns a response object, the decorator
  returns that object as it is: status, headers and body.
\<close>

theorem response_result_passed_through:
  assumes "calls (twilio_view validate force_text st f req args kwargs) \<noteq> []"
    and "f req args kwargs = Inr (Response r)"
  shows "fst (twilio_view validate force_text st f req args kwargs) = Inr (Response r)"
  unfolding accepted_run [OF assms(1)] using assms(2)
  by (simp add: run_view_def then_exn_def)

theorem response_result_passed_through_witness:
  "calls (twilio_view validate_ex no_text (settings_ex None None (Some ''secret'')) queued_view
        (request_ex ''POST'' meta_proxied) () ()) \<noteq> []
   \<and> fst (twilio_view validate_ex no_text (settings_ex None None (Some ''secret'')) queued_view
        (request_ex ''POST'' meta_proxied) () ())
      = Inr (Response \<lparr>status_code = 202, headers = [(''X-Queue'', ''sms'')], content = ''queued''\<rparr>)"
proof -
  have c: "calls (twilio_view validate_ex no_text (settings_ex None None (Some ''secret'')) queued_view
        (request_ex ''POST'' meta_proxied) () ()) \<noteq> []"
    by (simp add: ex_defs meta_proxied_def run_defs)
  have h: "queued_view (request_ex ''POST'' meta_proxied) () ()
     = Inr (Response \<lparr>status_code = 202, headers = [(''X-Queue'', ''sms'')], content = ''queued''\<rparr>)"
    by (simp add: queued_view_def)
  from response_result_passed_through [where validate = validate_ex and force_text = no_text and f = queued_view
      and args = "()" and kwargs = "()" and st = "settings_ex None None (Some ''secret'')"
      and req = "request_ex ''POST'' meta_proxied", OF c h] c show ?thesis
    by (intro conjI)
qed

subsection \<open>Skipped validation\<close>

text \<open>
  C9. With \<open>TWILIO_SKIP_SIGNATURE_VALIDATION\<close> set, every POST request goes to the wrapped
  view: the run is the call of the view and the coercion of its result, whatever
  \<open>request.META\<close> holds and whether or not the auth token is configured, and nothing is
  logged. A request without signature is therefore not refused.
\<close>

theorem skip_validation_runs_view:
  assumes "req_method req = ''POST''"
    and "getattr_default (TWILIO_SKIP_SIGNATURE_VALIDATION st) False"
  shows "twilio_view validate force_text st f req args kwargs
           = (then_exn (f req args kwargs) (\<lambda>response. Inr (coerce force_text response)),
              [Call req args kwargs])"
  unfolding skipped_run [OF assms] by (simp add: run_view_def)

theorem skip_validation_runs_view_witness:
  "META (request_ex ''POST'' []) ''HTTP_X_TWILIO_SIGNATURE'' = None
   \<and> twilio_view validate_ex no_text (settings_ex (Some True) None None) hi_view
        (request_ex ''POST'' []) () ()
      = (Inr (Response (HttpResponse ''<Response><Sms>hi</Sms></Response>'' (Some ''application/xml''))),
         [Call (request_ex ''POST'' []) () ()])"
  using skip_validation_runs_view [where validate = validate_ex and force_text = no_text and f = hi_view
      and args = "()" and kwargs = "()" and st = "settings_ex (Some True) None None"
      and req = "request_ex ''POST'' []"]
  by (simp add: ex_defs getattr_default_def then_exn_def)

subsection \<open>Missing auth token\<close>

text \<open>
  C10. When validation is not skipped and the settings do not define
  \<open>TWILIO_AUTH_TOKEN\<close>, every POST request is answered with status 403; the body is the
  message of the \<open>AttributeError\<close>, which names the attribute. The run ends with a
  response, not with an exception, and the view is not called.
\<close>

theorem missing_auth_token_forbidden:
  assumes "req_method req = ''POST''"
    and "\<not> getattr_default (TWILIO_SKIP_SIGNATURE_VALIDATION st) False"
    and "TWILIO_AUTH_TOKEN st = None"
  shows "twilio_view validate force_text st f req args kwargs
           = (Inr (Response
                \<lparr>status_code = 403, headers = [(''Content-Type'', ''text/html; charset=utf-8'')],
                 content = ''Missing META param: '' @ repr ''Settings''
                           @ '' object has no attribute '' @ repr ''TWILIO_AUTH_TOKEN''\<rparr>),
              [Log_exception ''Twilio: Missing META param''
                 (AttributeError (repr ''Settings'' @ '' object has no attribute ''
                                    @ repr ''TWILIO_AUTH_TOKEN''))])
       \<and> sublist ''TWILIO_AUTH_TOKEN''
           (''Missing META param: '' @ repr ''Settings''
              @ '' object has no attribute '' @ repr ''TWILIO_AUTH_TOKEN'')"
proof -
  have e: "validation_inputs st req
             = Inl (AttributeError (repr ''Settings'' @ '' object has no attribute ''
                                      @ repr ''TWILIO_AUTH_TOKEN''))"
    using assms(3) by (simp add: validation_inputs_def getattr_settings_def then_exn_def)
  have "sublist ''TWILIO_AUTH_TOKEN''
          ((''Missing META param: '' @ repr ''Settings'' @ '' object has no attribute '')
             @ repr ''TWILIO_AUTH_TOKEN'' @ [])"
    by (rule sublist_repr)
  have c: "caught (AttributeError (repr ''Settings'' @ '' object has no attribute ''
                                     @ repr ''TWILIO_AUTH_TOKEN''))"
    by simp
  with \<open>sublist ''TWILIO_AUTH_TOKEN''
          ((''Missing META param: '' @ repr ''Settings'' @ '' object has no attribute '')
             @ repr ''TWILIO_AUTH_TOKEN'' @ [])\<close>
  show ?thesis
    unfolding missing_run [OF assms(1,2) e c]
    by (simp add: HttpResponseForbidden_def HttpResponse_def getattr_default_def
          default_content_type_def)
qed

theorem missing_auth_token_forbidden_witness:
  "fst (twilio_view validate_ex no_text (settings_ex None None None) hi_view
        (request_ex ''POST'' meta_proxied) () ())
      = Inr (Response
                \<lparr>status_code = 403, headers = [(''Content-Type'', ''text/html; charset=utf-8'')],
                 content = ''Missing META param: '' @ repr ''Settings''
                           @ '' object has no attribute '' @ repr ''TWILIO_AUTH_TOKEN''\<rparr>)"
  using missing_auth_token_forbidden [where validate = validate_ex and force_text = no_text and f = hi_view
      and args = "()" and kwargs = "()" and st = "settings_ex None None None"
      and req = "request_ex ''POST'' meta_proxied"]
  by (simp add: ex_defs getattr_default_def)

end
